theory Spec2Isabelle
  imports Main "HOL-Library.Word"
begin

section \<open>The power HAL request dispatcher (power-libperfmgr/aidl/Power.cpp)\<close>

subsection \<open>Enumerations of the power interface\<close>

text \<open>
  Modelled from the spec: the enumerations \<open>Mode\<close> and \<open>Boost\<close> and their \<open>toString\<close>
  functions are declared by the power interface that Power.h includes, not by Power.cpp.
  Both are enum classes over a 32-bit signed integer, so a value is its integral rank and
  a rank without an enumerator is a value too (the \<open>default:\<close> labels of Power.cpp serve
  them). The enumerators are numbered from 0 in the order of their declaration.
\<close>

type_synonym int32 = "32 word"
type_synonym int64 = "64 word"

datatype Mode = Mode (rank: int32)

definition DOUBLE_TAP_TO_WAKE :: Mode where "DOUBLE_TAP_TO_WAKE = Mode 0"
definition LOW_POWER :: Mode where "LOW_POWER = Mode 1"
definition SUSTAINED_PERFORMANCE :: Mode where "SUSTAINED_PERFORMANCE = Mode 2"
definition FIXED_PERFORMANCE :: Mode where "FIXED_PERFORMANCE = Mode 3"
definition VR :: Mode where "VR = Mode 4"
definition LAUNCH :: Mode where "LAUNCH = Mode 5"
definition EXPENSIVE_RENDERING :: Mode where "EXPENSIVE_RENDERING = Mode 6"
definition INTERACTIVE :: Mode where "INTERACTIVE = Mode 7"
definition DEVICE_IDLE :: Mode where "DEVICE_IDLE = Mode 8"
definition DISPLAY_INACTIVE :: Mode where "DISPLAY_INACTIVE = Mode 9"
definition AUDIO_STREAMING_LOW_LATENCY :: Mode where "AUDIO_STREAMING_LOW_LATENCY = Mode 10"
definition CAMERA_STREAMING_SECURE :: Mode where "CAMERA_STREAMING_SECURE = Mode 11"
definition CAMERA_STREAMING_LOW :: Mode where "CAMERA_STREAMING_LOW = Mode 12"
definition CAMERA_STREAMING_MID :: Mode where "CAMERA_STREAMING_MID = Mode 13"
definition CAMERA_STREAMING_HIGH :: Mode where "CAMERA_STREAMING_HIGH = Mode 14"
definition GAME :: Mode where "GAME = Mode 15"
definition GAME_LOADING :: Mode where "GAME_LOADING = Mode 16"
definition DISPLAY_CHANGE :: Mode where "DISPLAY_CHANGE = Mode 17"
definition AUTOMOTIVE_PROJECTION :: Mode where "AUTOMOTIVE_PROJECTION = Mode 18"

datatype Boost = Boost (rank_Boost: int32)

definition INTERACTION :: Boost where "INTERACTION = Boost 0"
definition DISPLAY_UPDATE_IMMINENT :: Boost where "DISPLAY_UPDATE_IMMINENT = Boost 1"
definition ML_ACC :: Boost where "ML_ACC = Boost 2"
definition AUDIO_LAUNCH :: Boost where "AUDIO_LAUNCH = Boost 3"
definition CAMERA_LAUNCH :: Boost where "CAMERA_LAUNCH = Boost 4"
definition CAMERA_SHOT :: Boost where "CAMERA_SHOT = Boost 5"

text \<open>\<open>std::to_string\<close> on an integer: the decimal digits, with a sign when negative.\<close>

fun decimal :: "nat \<Rightarrow> string" where
  "decimal n =
     (if n < 10 then [''0123456789'' ! n]
      else decimal (n div 10) @ [''0123456789'' ! (n mod 10)])"

declare decimal.simps [simp del]

definition to_string :: "int \<Rightarrow> string" where
  "to_string i = (if i < 0 then CHR ''-'' # decimal (nat (- i)) else decimal (nat i))"

text \<open>
  \<open>toString(Mode)\<close> and \<open>toString(Boost)\<close>: the enumerator's name, and the decimal rank
  for a value without an enumerator.
\<close>

definition toString_Mode :: "Mode \<Rightarrow> string" where
  "toString_Mode val =
     (if val = DOUBLE_TAP_TO_WAKE then ''DOUBLE_TAP_TO_WAKE''
      else if val = LOW_POWER then ''LOW_POWER''
      else if val = SUSTAINED_PERFORMANCE then ''SUSTAINED_PERFORMANCE''
      else if val = FIXED_PERFORMANCE then ''FIXED_PERFORMANCE''
      else if val = VR then ''VR''
      else if val = LAUNCH then ''LAUNCH''
      else if val = EXPENSIVE_RENDERING then ''EXPENSIVE_RENDERING''
      else if val = INTERACTIVE then ''INTERACTIVE''
      else if val = DEVICE_IDLE then ''DEVICE_IDLE''
      else if val = DISPLAY_INACTIVE then ''DISPLAY_INACTIVE''
      else if val = AUDIO_STREAMING_LOW_LATENCY then ''AUDIO_STREAMING_LOW_LATENCY''
      else if val = CAMERA_STREAMING_SECURE then ''CAMERA_STREAMING_SECURE''
      else if val = CAMERA_STREAMING_LOW then ''CAMERA_STREAMING_LOW''
      else if val = CAMERA_STREAMING_MID then ''CAMERA_STREAMING_MID''
      else if val = CAMERA_STREAMING_HIGH then ''CAMERA_STREAMING_HIGH''
      else if val = GAME then ''GAME''
      else if val = GAME_LOADING then ''GAME_LOADING''
      else if val = DISPLAY_CHANGE then ''DISPLAY_CHANGE''
      else if val = AUTOMOTIVE_PROJECTION then ''AUTOMOTIVE_PROJECTION''
      else to_string (sint (rank val)))"

definition toString_Boost :: "Boost \<Rightarrow> string" where
  "toString_Boost val =
     (if val = INTERACTION then ''INTERACTION''
      else if val = DISPLAY_UPDATE_IMMINENT then ''DISPLAY_UPDATE_IMMINENT''
      else if val = ML_ACC then ''ML_ACC''
      else if val = AUDIO_LAUNCH then ''AUDIO_LAUNCH''
      else if val = CAMERA_LAUNCH then ''CAMERA_LAUNCH''
      else if val = CAMERA_SHOT then ''CAMERA_SHOT''
      else to_string (sint (rank_Boost val)))"

subsection \<open>Collaborators and state\<close>

text \<open>
  Every call that Power.cpp makes on a collaborator with an effect is recorded, in the
  order of the calls: the hint manager's \<open>DoHint(name)\<close>, \<open>DoHint(name, duration)\<close> and
  \<open>EndHint(name)\<close>, the interaction handler's \<open>Acquire(duration)\<close> and the session
  manager's \<open>updateHintMode(name, enabled)\<close>.
\<close>

datatype call =
    Call_DoHint string
  | Call_DoHint_for string int32
  | Call_EndHint string
  | Call_Acquire int32
  | Call_updateHintMode string bool

text \<open>The queries of the capability functions on the hint manager, in the order asked.\<close>

datatype query =
    Ask_IsHintSupported string
  | Ask_IsAdpfProfileSupported string

text \<open>The exception code of a returned \<open>ndk::ScopedAStatus\<close>.\<close>

datatype status = ok | EX_UNSUPPORTED_OPERATION | EX_ILLEGAL_ARGUMENT

text \<open>
  What the collaborators answer. The two device hooks are declared \<open>extern\<close> in Power.cpp
  and defined per device: \<open>setDeviceSpecificMode\<close> answers whether it handled the request;
  \<open>isDeviceSpecificModeSupported\<close> receives the content of the result cell and answers
  whether it claims the question, together with the content it leaves in the cell. The
  other fields are the answers of the hint manager (the reporting rate limit is the field
  of its ADPF profile).
\<close>

record env =
  IsAdpfSupported :: bool
  setDeviceSpecificMode :: "Mode \<Rightarrow> bool \<Rightarrow> bool"
  isDeviceSpecificModeSupported :: "Mode \<Rightarrow> bool \<Rightarrow> bool \<times> bool"
  IsHintSupported :: "string \<Rightarrow> bool"
  IsAdpfProfileSupported :: "string \<Rightarrow> bool"
  mReportingRateLimitNs :: int64

text \<open>
  The members of \<open>Power\<close> (the two global flags and the negotiated interface version),
  the hint manager's list of hints as \<open>GetHints()\<close> returns it, and the calls made so far.
\<close>

record world =
  mSustainedPerfModeOn :: bool
  mBatterySaverOn :: bool
  mServiceVersion :: int32
  hints :: "string list"
  calls :: "call list"

text \<open>
  Modelled from the spec: the hint manager is a library outside Power.cpp. Its list of
  hints is the set of currently applied named hints: activating a name adds it (once),
  deactivating a name removes it. A timed activation adds the name too; its expiry is
  the backend's timer and is not part of this state.
\<close>

definition DoHint :: "string \<Rightarrow> world \<Rightarrow> world" where
  "DoHint name w =
     w\<lparr>hints := (if name \<in> set (hints w) then hints w else hints w @ [name]),
       calls := calls w @ [Call_DoHint name]\<rparr>"

definition DoHint_for :: "string \<Rightarrow> int32 \<Rightarrow> world \<Rightarrow> world" where
  "DoHint_for name durationMs w =
     w\<lparr>hints := (if name \<in> set (hints w) then hints w else hints w @ [name]),
       calls := calls w @ [Call_DoHint_for name durationMs]\<rparr>"

definition EndHint :: "string \<Rightarrow> world \<Rightarrow> world" where
  "EndHint name w =
     w\<lparr>hints := removeAll name (hints w), calls := calls w @ [Call_EndHint name]\<rparr>"

definition GetHints :: "world \<Rightarrow> string list" where
  "GetHints w = hints w"

definition Acquire :: "int32 \<Rightarrow> world \<Rightarrow> world" where
  "Acquire durationMs w = w\<lparr>calls := calls w @ [Call_Acquire durationMs]\<rparr>"

definition updateHintMode :: "string \<Rightarrow> bool \<Rightarrow> world \<Rightarrow> world" where
  "updateHintMode name enabled w = w\<lparr>calls := calls w @ [Call_updateHintMode name enabled]\<rparr>"

subsection \<open>Power.cpp\<close>

definition kAlwaysAllowedModes :: "Mode list" where
  "kAlwaysAllowedModes = [DOUBLE_TAP_TO_WAKE, DEVICE_IDLE, DISPLAY_INACTIVE]"

text \<open>
  \<open>endAllHints\<close>: the loop runs over the list that \<open>GetHints()\<close> returned, and ends every
  hint whose name is not the name of an always allowed mode.
\<close>

fun endAllHints_loop :: "string list \<Rightarrow> world \<Rightarrow> world" where
  "endAllHints_loop [] w = w"
| "endAllHints_loop (hint # rest) w =
     (if list_ex (\<lambda>mode. hint = toString_Mode mode) kAlwaysAllowedModes
      then endAllHints_loop rest w
      else endAllHints_loop rest (EndHint hint w))"

definition endAllHints :: "world \<Rightarrow> world" where
  "endAllHints w = endAllHints_loop (GetHints w) w"

definition setMode :: "env \<Rightarrow> Mode \<Rightarrow> bool \<Rightarrow> world \<Rightarrow> status \<times> world" where
  "setMode e type enabled w0 =
     (let w = (if IsAdpfSupported e then updateHintMode (toString_Mode type) enabled w0 else w0)
      in if setDeviceSpecificMode e type enabled then (ok, w)
      else if type = SUSTAINED_PERFORMANCE then
        (ok, (if enabled then DoHint ''SUSTAINED_PERFORMANCE'' (endAllHints w)
              else EndHint ''SUSTAINED_PERFORMANCE'' w)\<lparr>mSustainedPerfModeOn := enabled\<rparr>)
      else if type = LOW_POWER then
        (ok, (if enabled then DoHint ''LOW_POWER'' (endAllHints w)
              else EndHint ''LOW_POWER'' w)\<lparr>mBatterySaverOn := enabled\<rparr>)
      else if (mBatterySaverOn w \<or> mSustainedPerfModeOn w)
              \<and> type \<notin> set kAlwaysAllowedModes then (ok, w)
      else if enabled then (ok, DoHint (toString_Mode type) w)
      else (ok, EndHint (toString_Mode type) w))"

text \<open>
  \<open>isModeSupported\<close>: the result is the status, the content of \<open>*_aidl_return\<close> (whose
  content at the call is \<open>ret0\<close>) and the queries made on the hint manager. The cascade of
  the switch on the version falls through from 5 to 3 to 1 to the default.
\<close>

definition modeVersionGate :: "int32 \<Rightarrow> Mode \<Rightarrow> bool" where
  "modeVersionGate version type =
     (let upto1 = (rank type \<le>s rank CAMERA_STREAMING_HIGH);
          upto3 = (rank type \<le>s rank GAME_LOADING \<or> upto1);
          upto5 = (rank type \<le>s rank AUTOMOTIVE_PROJECTION \<or> upto3)
      in if version = 5 then upto5
         else if version = 4 \<or> version = 3 then upto3
         else if version = 2 \<or> version = 1 then upto1
         else False)"

definition isModeSupported ::
  "env \<Rightarrow> Mode \<Rightarrow> bool \<Rightarrow> world \<Rightarrow> status \<times> bool \<times> query list" where
  "isModeSupported e type ret0 w =
     (case isDeviceSpecificModeSupported e type ret0 of
        (True, ret) \<Rightarrow> (ok, ret, [])
      | (False, ret) \<Rightarrow>
          if \<not> modeVersionGate (mServiceVersion w) type then (ok, False, [])
          else if type = LOW_POWER then (ok, True, [])
          else if IsHintSupported e (toString_Mode type)
            then (ok, True, [Ask_IsHintSupported (toString_Mode type)])
          else if IsAdpfProfileSupported e (toString_Mode type)
            then (ok, True, [Ask_IsHintSupported (toString_Mode type),
                             Ask_IsAdpfProfileSupported (toString_Mode type)])
          else (ok, False, [Ask_IsHintSupported (toString_Mode type),
                            Ask_IsAdpfProfileSupported (toString_Mode type)]))"

definition setBoost :: "Boost \<Rightarrow> int32 \<Rightarrow> world \<Rightarrow> status \<times> world" where
  "setBoost type durationMs w =
     (if type = INTERACTION then
        (if mSustainedPerfModeOn w \<or> mBatterySaverOn w then (ok, w)
         else (ok, Acquire durationMs w))
      else if mSustainedPerfModeOn w \<or> mBatterySaverOn w then (ok, w)
      else if 0 <s durationMs then (ok, DoHint_for (toString_Boost type) durationMs w)
      else if durationMs = 0 then (ok, DoHint (toString_Boost type) w)
      else (ok, EndHint (toString_Boost type) w))"

definition boostVersionGate :: "int32 \<Rightarrow> Boost \<Rightarrow> bool" where
  "boostVersionGate version type =
     (if version = 5 \<or> version = 4 \<or> version = 3 \<or> version = 2 \<or> version = 1
      then rank_Boost type \<le>s rank_Boost CAMERA_SHOT
      else False)"

definition isBoostSupported :: "env \<Rightarrow> Boost \<Rightarrow> world \<Rightarrow> status \<times> bool \<times> query list" where
  "isBoostSupported e type w =
     (if \<not> boostVersionGate (mServiceVersion w) type then (ok, False, [])
      else if IsHintSupported e (toString_Boost type)
        then (ok, True, [Ask_IsHintSupported (toString_Boost type)])
      else if IsAdpfProfileSupported e (toString_Boost type)
        then (ok, True, [Ask_IsHintSupported (toString_Boost type),
                         Ask_IsAdpfProfileSupported (toString_Boost type)])
      else (ok, False, [Ask_IsHintSupported (toString_Boost type),
                        Ask_IsAdpfProfileSupported (toString_Boost type)]))"

text \<open>
  \<open>getHintSessionPreferredRate\<close>: the status and the content of \<open>*outNanoseconds\<close>, which
  is written on both paths.
\<close>

definition getHintSessionPreferredRate :: "env \<Rightarrow> status \<times> int64" where
  "getHintSessionPreferredRate e =
     (let outNanoseconds = (if IsAdpfSupported e then mReportingRateLimitNs e else 0)
      in if outNanoseconds \<le>s 0 then (EX_UNSUPPORTED_OPERATION, outNanoseconds)
         else (ok, outNanoseconds))"

subsection \<open>Vocabulary of the statements\<close>

text \<open>A hint name is always allowed when it is the name of an always allowed mode.\<close>

definition alwaysAllowedName :: "string \<Rightarrow> bool" where
  "alwaysAllowedName hint = (hint \<in> toString_Mode ` set kAlwaysAllowedModes)"

text \<open>The calls by which \<open>setMode\<close> tells the session manager of a request.\<close>

definition sessionNotice :: "env \<Rightarrow> Mode \<Rightarrow> bool \<Rightarrow> call list" where
  "sessionNotice e type enabled =
     (if IsAdpfSupported e then [Call_updateHintMode (toString_Mode type) enabled] else [])"

text \<open>
  The version cutoffs as the specification words them: the last mode admitted at a
  negotiated version, and no mode at a version outside 1 to 5; every boost up to
  \<open>CAMERA_SHOT\<close> at the versions 1 to 5.
\<close>

definition modeCutoff :: "int32 \<Rightarrow> Mode option" where
  "modeCutoff version =
     (if 1 \<le>s version \<and> version \<le>s 2 then Some CAMERA_STREAMING_HIGH
      else if 3 \<le>s version \<and> version \<le>s 4 then Some GAME_LOADING
      else if version = 5 then Some AUTOMOTIVE_PROJECTION
      else None)"

definition modeAdmitted :: "int32 \<Rightarrow> Mode \<Rightarrow> bool" where
  "modeAdmitted version type =
     (case modeCutoff version of None \<Rightarrow> False | Some cutoff \<Rightarrow> rank type \<le>s rank cutoff)"

definition boostAdmitted :: "int32 \<Rightarrow> Boost \<Rightarrow> bool" where
  "boostAdmitted version type =
     (1 \<le>s version \<and> version \<le>s 5 \<and> rank_Boost type \<le>s rank_Boost CAMERA_SHOT)"

subsection \<open>Example collaborators and states\<close>

text \<open>
  A device whose hooks handle nothing, with ADPF sessions, the named hint \<open>LAUNCH\<close>, the
  session profile \<open>GAME\<close> and a reporting rate limit of 166666660 ns.
\<close>

definition env0 :: env where
  "env0 = \<lparr>IsAdpfSupported = True,
           setDeviceSpecificMode = (\<lambda>type enabled. False),
           isDeviceSpecificModeSupported = (\<lambda>type ret. (False, ret)),
           IsHintSupported = (\<lambda>name. name = ''LAUNCH''),
           IsAdpfProfileSupported = (\<lambda>name. name = ''GAME''),
           mReportingRateLimitNs = 166666660\<rparr>"

text \<open>The same device with a hook that claims the mode \<open>GAME\<close> and reports it supported.\<close>

definition env_claiming :: env where
  "env_claiming =
     env0\<lparr>isDeviceSpecificModeSupported :=
            (\<lambda>type ret. if type = GAME then (True, True) else (False, ret))\<rparr>"

text \<open>The same device without ADPF sessions.\<close>

definition env_no_adpf :: env where
  "env_no_adpf = env0\<lparr>IsAdpfSupported := False\<rparr>"

definition world0 :: world where
  "world0 = \<lparr>mSustainedPerfModeOn = False, mBatterySaverOn = False, mServiceVersion = 5,
             hints = [''LAUNCH'', ''DEVICE_IDLE'', ''SUSTAINED_PERFORMANCE''], calls = []\<rparr>"

definition world_sustained :: world where
  "world_sustained = world0\<lparr>mSustainedPerfModeOn := True\<rparr>"

definition world_saver :: world where
  "world_saver = world0\<lparr>mBatterySaverOn := True\<rparr>"

definition world_v :: "int32 \<Rightarrow> world" where
  "world_v version = world0\<lparr>mServiceVersion := version\<rparr>"

section \<open>Properties\<close>

subsection \<open>Auxiliary facts\<close>

lemmas Mode_defs =
  DOUBLE_TAP_TO_WAKE_def LOW_POWER_def SUSTAINED_PERFORMANCE_def FIXED_PERFORMANCE_def
  VR_def LAUNCH_def EXPENSIVE_RENDERING_def INTERACTIVE_def DEVICE_IDLE_def
  DISPLAY_INACTIVE_def AUDIO_STREAMING_LOW_LATENCY_def CAMERA_STREAMING_SECURE_def
  CAMERA_STREAMING_LOW_def CAMERA_STREAMING_MID_def CAMERA_STREAMING_HIGH_def GAME_def
  GAME_LOADING_def DISPLAY_CHANGE_def AUTOMOTIVE_PROJECTION_def

lemmas Boost_defs =
  INTERACTION_def DISPLAY_UPDATE_IMMINENT_def ML_ACC_def AUDIO_LAUNCH_def CAMERA_LAUNCH_def
  CAMERA_SHOT_def

lemmas names_defs = toString_Mode_def toString_Boost_def Mode_defs Boost_defs

lemmas examples_defs =
  env0_def env_claiming_def env_no_adpf_def world0_def world_sustained_def world_saver_def
  world_v_def

lemma global_modes_distinct [simp]:
  "LOW_POWER \<noteq> SUSTAINED_PERFORMANCE" "SUSTAINED_PERFORMANCE \<noteq> LOW_POWER"
  by (simp_all add: Mode_defs)

lemma alwaysAllowedName_iff:
  "alwaysAllowedName h =
     (h = ''DOUBLE_TAP_TO_WAKE'' \<or> h = ''DEVICE_IDLE'' \<or> h = ''DISPLAY_INACTIVE'')"
  by (auto simp: alwaysAllowedName_def kAlwaysAllowedModes_def toString_Mode_def Mode_defs)

lemma global_names_not_allowed [simp]:
  "\<not> alwaysAllowedName ''SUSTAINED_PERFORMANCE''" "\<not> alwaysAllowedName ''LOW_POWER''"
  by (simp_all add: alwaysAllowedName_iff)

text \<open>The test of the loop of \<open>endAllHints\<close> is the test on the name.\<close>

lemma any_of_alwaysAllowed:
  "list_ex (\<lambda>mode. hint = toString_Mode mode) kAlwaysAllowedModes = alwaysAllowedName hint"
  by (auto simp: alwaysAllowedName_def list_ex_iff)

text \<open>
  The loop of \<open>endAllHints\<close>, by induction on the list it runs over: it calls \<open>EndHint\<close>
  once for every name of the list that is not always allowed, in the order of the list,
  removes these names from the backend's hints and leaves the rest of the state alone.
\<close>

lemma endAllHints_loop_calls:
  "calls (endAllHints_loop hs w) =
     calls w @ map Call_EndHint (filter (\<lambda>h. \<not> alwaysAllowedName h) hs)"
  by (induction hs arbitrary: w) (simp_all add: any_of_alwaysAllowed EndHint_def)

lemma endAllHints_loop_hints:
  "hints (endAllHints_loop hs w) =
     filter (\<lambda>h. alwaysAllowedName h \<or> h \<notin> set hs) (hints w)"
proof (induction hs arbitrary: w)
  case Nil
  show ?case by simp
next
  case (Cons a hs)
  show ?case
  proof (cases "alwaysAllowedName a")
    case True
    have "filter (\<lambda>h. alwaysAllowedName h \<or> h \<notin> set hs) (hints w) =
          filter (\<lambda>h. alwaysAllowedName h \<or> h \<notin> set (a # hs)) (hints w)"
      using True by (auto intro: filter_cong)
    with True show ?thesis
      by (simp add: any_of_alwaysAllowed Cons.IH)
  next
    case False
    have "filter (\<lambda>h. alwaysAllowedName h \<or> h \<notin> set hs) (removeAll a (hints w)) =
          filter (\<lambda>h. alwaysAllowedName h \<or> h \<notin> set (a # hs)) (hints w)"
      using False by (auto simp: removeAll_filter_not_eq intro: filter_cong)
    with False show ?thesis
      by (simp add: any_of_alwaysAllowed Cons.IH EndHint_def)
  qed
qed

lemma endAllHints_loop_members:
  "mSustainedPerfModeOn (endAllHints_loop hs w) = mSustainedPerfModeOn w"
  "mBatterySaverOn (endAllHints_loop hs w) = mBatterySaverOn w"
  "mServiceVersion (endAllHints_loop hs w) = mServiceVersion w"
  by (induction hs arbitrary: w) (simp_all add: EndHint_def)

lemma endAllHints_eq:
  "endAllHints w =
     w\<lparr>hints := filter alwaysAllowedName (hints w),
       calls := calls w @ map Call_EndHint (filter (\<lambda>h. \<not> alwaysAllowedName h) (hints w))\<rparr>"
proof -
  have "filter (\<lambda>h. alwaysAllowedName h \<or> h \<notin> set (hints w)) (hints w) =
        filter alwaysAllowedName (hints w)"
    by (auto intro: filter_cong)
  then show ?thesis
    by (simp add: endAllHints_def GetHints_def world.equality endAllHints_loop_calls
        endAllHints_loop_hints endAllHints_loop_members)
qed

text \<open>A signed 32-bit value between two small bounds is one of the values between them.\<close>

lemma sint_between:
  fixes v :: int32
  shows "(1 \<le>s v \<and> v \<le>s 2) = (v = 1 \<or> v = 2)"
    and "(3 \<le>s v \<and> v \<le>s 4) = (v = 3 \<or> v = 4)"
    and "(1 \<le>s v \<and> v \<le>s 5) = (v = 1 \<or> v = 2 \<or> v = 3 \<or> v = 4 \<or> v = 5)"
proof -
  have conv: "v = word_of_int k" if "sint v = k" for k
    using that by auto
  show "(1 \<le>s v \<and> v \<le>s 2) = (v = 1 \<or> v = 2)"
  proof
    assume "1 \<le>s v \<and> v \<le>s 2"
    then have "sint v = 1 \<or> sint v = 2" by (auto simp: word_sle_eq)
    then show "v = 1 \<or> v = 2" by (auto dest: conv)
  qed (auto simp: word_sle_eq)
  show "(3 \<le>s v \<and> v \<le>s 4) = (v = 3 \<or> v = 4)"
  proof
    assume "3 \<le>s v \<and> v \<le>s 4"
    then have "sint v = 3 \<or> sint v = 4" by (auto simp: word_sle_eq)
    then show "v = 3 \<or> v = 4" by (auto dest: conv)
  qed (auto simp: word_sle_eq)
  show "(1 \<le>s v \<and> v \<le>s 5) = (v = 1 \<or> v = 2 \<or> v = 3 \<or> v = 4 \<or> v = 5)"
  proof
    assume "1 \<le>s v \<and> v \<le>s 5"
    then have "sint v = 1 \<or> sint v = 2 \<or> sint v = 3 \<or> sint v = 4 \<or> sint v = 5"
      by (auto simp: word_sle_eq)
    then show "v = 1 \<or> v = 2 \<or> v = 3 \<or> v = 4 \<or> v = 5" by (auto dest: conv)
  qed (auto simp: word_sle_eq)
qed

text \<open>The cascades of the two switches on the version admit what the cutoffs admit.\<close>

lemma modeVersionGate_admitted: "modeVersionGate version type = modeAdmitted version type"
  unfolding modeVersionGate_def modeAdmitted_def modeCutoff_def sint_between Let_def
  by (auto simp: Mode_defs word_sle_eq)

lemma boostVersionGate_admitted: "boostVersionGate version type = boostAdmitted version type"
  using sint_between(3) [of version]
  by (auto simp: boostVersionGate_def boostAdmitted_def)

subsection \<open>Modes\<close>

text \<open>
  Claim C1. For every mode other than \<open>SUSTAINED_PERFORMANCE\<close> and \<open>LOW_POWER\<close>, when the
  device hook reports the request unhandled: if one of the two global flags is set and the
  mode is not always allowed, \<open>setMode\<close> makes no call on the hint manager (the state
  changes by the notice to the session manager only); otherwise it calls \<open>DoHint\<close> when
  enabling and \<open>EndHint\<close> when disabling, on the name of the mode. It returns success.
\<close>

theorem setMode_other_modes:
  assumes "type \<noteq> SUSTAINED_PERFORMANCE" and "type \<noteq> LOW_POWER"
    and "\<not> setDeviceSpecificMode e type enabled"
  shows "setMode e type enabled w =
    (ok,
     if (mSustainedPerfModeOn w \<or> mBatterySaverOn w) \<and> type \<notin> set kAlwaysAllowedModes
     then w\<lparr>calls := calls w @ sessionNotice e type enabled\<rparr>
     else if enabled
     then w\<lparr>hints := (if toString_Mode type \<in> set (hints w) then hints w
                       else hints w @ [toString_Mode type]),
            calls := calls w @ sessionNotice e type enabled
                     @ [Call_DoHint (toString_Mode type)]\<rparr>
     else w\<lparr>hints := removeAll (toString_Mode type) (hints w),
            calls := calls w @ sessionNotice e type enabled
                     @ [Call_EndHint (toString_Mode type)]\<rparr>)"
  using assms
  by (simp add: setMode_def Let_def sessionNotice_def updateHintMode_def DoHint_def
      EndHint_def)

text \<open>
  While sustained performance is on, \<open>LAUNCH\<close> is suppressed and \<open>DEVICE_IDLE\<close> is
  forwarded.
\<close>

theorem setMode_other_modes_witness:
  "LAUNCH \<noteq> SUSTAINED_PERFORMANCE \<and> LAUNCH \<noteq> LOW_POWER
   \<and> \<not> setDeviceSpecificMode env0 LAUNCH True
   \<and> setMode env0 LAUNCH True world_sustained =
       (ok, world_sustained\<lparr>calls := [Call_updateHintMode ''LAUNCH'' True]\<rparr>)
   \<and> DEVICE_IDLE \<noteq> SUSTAINED_PERFORMANCE \<and> DEVICE_IDLE \<noteq> LOW_POWER
   \<and> \<not> setDeviceSpecificMode env0 DEVICE_IDLE False
   \<and> setMode env0 DEVICE_IDLE False world_sustained =
       (ok, world_sustained\<lparr>hints := [''LAUNCH'', ''SUSTAINED_PERFORMANCE''],
              calls := [Call_updateHintMode ''DEVICE_IDLE'' False,
                        Call_EndHint ''DEVICE_IDLE'']\<rparr>)"
  using setMode_other_modes [of LAUNCH env0 True world_sustained]
    setMode_other_modes [of DEVICE_IDLE env0 False world_sustained]
  by (simp add: examples_defs names_defs kAlwaysAllowedModes_def sessionNotice_def)

text \<open>
  Claim C2. When the device hook reports the request unhandled, and whatever the two global
  flags are: \<open>setMode(SUSTAINED_PERFORMANCE, true)\<close> first calls \<open>EndHint\<close> on every hint
  that \<open>GetHints()\<close> lists, except the names of the always allowed modes, then calls
  \<open>DoHint("SUSTAINED_PERFORMANCE")\<close> and sets \<open>mSustainedPerfModeOn\<close>;
  \<open>setMode(SUSTAINED_PERFORMANCE, false)\<close> calls \<open>EndHint("SUSTAINED_PERFORMANCE")\<close> and
  clears the flag; \<open>setMode(LOW_POWER, enabled)\<close> does the same with \<open>"LOW_POWER"\<close> and
  \<open>mBatterySaverOn\<close>.
\<close>

theorem setMode_global_modes:
  "(\<not> setDeviceSpecificMode e SUSTAINED_PERFORMANCE True \<longrightarrow>
      setMode e SUSTAINED_PERFORMANCE True w =
        (ok, w\<lparr>mSustainedPerfModeOn := True,
               hints := filter alwaysAllowedName (hints w) @ [''SUSTAINED_PERFORMANCE''],
               calls := calls w @ sessionNotice e SUSTAINED_PERFORMANCE True
                        @ map Call_EndHint (filter (\<lambda>h. \<not> alwaysAllowedName h) (hints w))
                        @ [Call_DoHint ''SUSTAINED_PERFORMANCE'']\<rparr>)) \<and>
   (\<not> setDeviceSpecificMode e SUSTAINED_PERFORMANCE False \<longrightarrow>
      setMode e SUSTAINED_PERFORMANCE False w =
        (ok, w\<lparr>mSustainedPerfModeOn := False,
               hints := removeAll ''SUSTAINED_PERFORMANCE'' (hints w),
               calls := calls w @ sessionNotice e SUSTAINED_PERFORMANCE False
                        @ [Call_EndHint ''SUSTAINED_PERFORMANCE'']\<rparr>)) \<and>
   (\<not> setDeviceSpecificMode e LOW_POWER True \<longrightarrow>
      setMode e LOW_POWER True w =
        (ok, w\<lparr>mBatterySaverOn := True,
               hints := filter alwaysAllowedName (hints w) @ [''LOW_POWER''],
               calls := calls w @ sessionNotice e LOW_POWER True
                        @ map Call_EndHint (filter (\<lambda>h. \<not> alwaysAllowedName h) (hints w))
                        @ [Call_DoHint ''LOW_POWER'']\<rparr>)) \<and>
   (\<not> setDeviceSpecificMode e LOW_POWER False \<longrightarrow>
      setMode e LOW_POWER False w =
        (ok, w\<lparr>mBatterySaverOn := False,
               hints := removeAll ''LOW_POWER'' (hints w),
               calls := calls w @ sessionNotice e LOW_POWER False
                        @ [Call_EndHint ''LOW_POWER'']\<rparr>))"
  by (simp add: setMode_def Let_def endAllHints_eq DoHint_def EndHint_def
      sessionNotice_def updateHintMode_def)

text \<open>
  With the battery saver already on, enabling sustained performance still applies: it ends
  \<open>LAUNCH\<close> and \<open>SUSTAINED_PERFORMANCE\<close>, keeps \<open>DEVICE_IDLE\<close> and starts
  \<open>SUSTAINED_PERFORMANCE\<close>; disabling the battery saver ends \<open>LOW_POWER\<close> and clears its
  flag.
\<close>

theorem setMode_global_modes_witness:
  "\<not> setDeviceSpecificMode env0 SUSTAINED_PERFORMANCE True
   \<and> setMode env0 SUSTAINED_PERFORMANCE True world_saver =
       (ok, \<lparr>mSustainedPerfModeOn = True, mBatterySaverOn = True, mServiceVersion = 5,
             hints = [''DEVICE_IDLE'', ''SUSTAINED_PERFORMANCE''],
             calls = [Call_updateHintMode ''SUSTAINED_PERFORMANCE'' True,
                      Call_EndHint ''LAUNCH'', Call_EndHint ''SUSTAINED_PERFORMANCE'',
                      Call_DoHint ''SUSTAINED_PERFORMANCE'']\<rparr>)
   \<and> \<not> setDeviceSpecificMode env0 LOW_POWER False
   \<and> setMode env0 LOW_POWER False world_saver =
       (ok, world0\<lparr>calls := [Call_updateHintMode ''LOW_POWER'' False,
                             Call_EndHint ''LOW_POWER'']\<rparr>)"
  using setMode_global_modes [of env0 world_saver]
  by (simp add: examples_defs sessionNotice_def alwaysAllowedName_iff names_defs)

text \<open>
  Claim C8. For every mode, every starting state and every device hook (a function of the
  request), a second \<open>setMode(X, true)\<close> right after the first leaves the two global flags
  and the backend's hints as the first left them.
\<close>

theorem setMode_enable_idempotent:
  "mSustainedPerfModeOn (snd (setMode e X True (snd (setMode e X True w)))) =
     mSustainedPerfModeOn (snd (setMode e X True w)) \<and>
   mBatterySaverOn (snd (setMode e X True (snd (setMode e X True w)))) =
     mBatterySaverOn (snd (setMode e X True w)) \<and>
   hints (snd (setMode e X True (snd (setMode e X True w)))) =
     hints (snd (setMode e X True w))"
proof (cases "setDeviceSpecificMode e X True")
  case True
  then show ?thesis
    by (simp add: setMode_def Let_def updateHintMode_def)
next
  case unhandled: False
  show ?thesis
  proof (cases "X = SUSTAINED_PERFORMANCE \<or> X = LOW_POWER")
    case True
    then show ?thesis
      using unhandled
      by (auto simp: setMode_def Let_def updateHintMode_def endAllHints_eq DoHint_def)
  next
    case False
    then show ?thesis
      using unhandled
      by (simp add: setMode_def Let_def updateHintMode_def DoHint_def)
  qed
qed

theorem setMode_enable_idempotent_witness:
  "hints (snd (setMode env0 SUSTAINED_PERFORMANCE True world0)) =
     [''DEVICE_IDLE'', ''SUSTAINED_PERFORMANCE'']
   \<and> hints (snd (setMode env0 SUSTAINED_PERFORMANCE True
                   (snd (setMode env0 SUSTAINED_PERFORMANCE True world0)))) =
     [''DEVICE_IDLE'', ''SUSTAINED_PERFORMANCE'']
   \<and> mSustainedPerfModeOn (snd (setMode env0 SUSTAINED_PERFORMANCE True
                   (snd (setMode env0 SUSTAINED_PERFORMANCE True world0))))
   \<and> \<not> mBatterySaverOn (snd (setMode env0 SUSTAINED_PERFORMANCE True
                   (snd (setMode env0 SUSTAINED_PERFORMANCE True world0))))"
  using setMode_enable_idempotent [of env0 SUSTAINED_PERFORMANCE world0]
  by (simp add: setMode_def Let_def updateHintMode_def endAllHints_eq DoHint_def
      examples_defs alwaysAllowedName_iff names_defs)

text \<open>
  Claim C10. \<open>setMode(LOW_POWER, enabled)\<close> never changes \<open>mSustainedPerfModeOn\<close> and
  \<open>setMode(SUSTAINED_PERFORMANCE, enabled)\<close> never changes \<open>mBatterySaverOn\<close>. In
  particular, when \<open>mSustainedPerfModeOn\<close> is set and \<open>SUSTAINED_PERFORMANCE\<close> is among the
  backend's hints, enabling \<open>LOW_POWER\<close> (the device hook leaving the request to the generic
  code) ends that hint in the sweep and does not start it again, yet leaves the flag set:
  both flags are set while, of the two hints, only \<open>LOW_POWER\<close> is applied.
\<close>

theorem global_flags_independent:
  "mSustainedPerfModeOn (snd (setMode e LOW_POWER enabled w)) = mSustainedPerfModeOn w \<and>
   mBatterySaverOn (snd (setMode e SUSTAINED_PERFORMANCE enabled w)) = mBatterySaverOn w \<and>
   (\<not> setDeviceSpecificMode e LOW_POWER True \<and> mSustainedPerfModeOn w
      \<and> ''SUSTAINED_PERFORMANCE'' \<in> set (hints w) \<longrightarrow>
      Call_EndHint ''SUSTAINED_PERFORMANCE''
        \<in> set (drop (length (calls w)) (calls (snd (setMode e LOW_POWER True w)))) \<and>
      Call_DoHint ''SUSTAINED_PERFORMANCE''
        \<notin> set (drop (length (calls w)) (calls (snd (setMode e LOW_POWER True w)))) \<and>
      ''SUSTAINED_PERFORMANCE'' \<notin> set (hints (snd (setMode e LOW_POWER True w))) \<and>
      ''LOW_POWER'' \<in> set (hints (snd (setMode e LOW_POWER True w))) \<and>
      mSustainedPerfModeOn (snd (setMode e LOW_POWER True w)) \<and>
      mBatterySaverOn (snd (setMode e LOW_POWER True w)))"
  by (auto simp: setMode_def Let_def endAllHints_eq DoHint_def EndHint_def
      updateHintMode_def)

theorem global_flags_independent_witness:
  "\<not> setDeviceSpecificMode env0 LOW_POWER True
   \<and> mSustainedPerfModeOn world_sustained
   \<and> ''SUSTAINED_PERFORMANCE'' \<in> set (hints world_sustained)
   \<and> Call_EndHint ''SUSTAINED_PERFORMANCE''
        \<in> set (drop (length (calls world_sustained))
                 (calls (snd (setMode env0 LOW_POWER True world_sustained))))
   \<and> ''SUSTAINED_PERFORMANCE'' \<notin> set (hints (snd (setMode env0 LOW_POWER True world_sustained)))
   \<and> ''LOW_POWER'' \<in> set (hints (snd (setMode env0 LOW_POWER True world_sustained)))
   \<and> mSustainedPerfModeOn (snd (setMode env0 LOW_POWER True world_sustained))
   \<and> mBatterySaverOn (snd (setMode env0 LOW_POWER True world_sustained))"
  using global_flags_independent [of env0 True world_sustained]
  by (simp add: examples_defs)

subsection \<open>Boosts\<close>

text \<open>
  Claim C4, as stated for every boost, fails at \<open>INTERACTION\<close>: with both flags clear,
  \<open>setBoost(INTERACTION, 50)\<close> calls the interaction handler and makes no timed \<open>DoHint\<close>
  call.
\<close>

theorem setBoost_INTERACTION_not_named_hint:
  "\<not> mSustainedPerfModeOn world0 \<and> \<not> mBatterySaverOn world0 \<and> 0 <s (50 :: int32)
   \<and> calls (snd (setBoost INTERACTION 50 world0)) = [Call_Acquire 50]
   \<and> snd (setBoost INTERACTION 50 world0) \<noteq> DoHint_for (toString_Boost INTERACTION) 50 world0"
  by (simp add: setBoost_def Acquire_def DoHint_for_def examples_defs word_sless_alt)

text \<open>
  Claim C4, amended. For every boost other than \<open>INTERACTION\<close>, when both global flags are
  clear, \<open>setBoost(boost, durationMs)\<close> calls \<open>DoHint(name, durationMs)\<close> when
  \<open>durationMs > 0\<close>, \<open>DoHint(name)\<close> when \<open>durationMs == 0\<close> and \<open>EndHint(name)\<close> when
  \<open>durationMs < 0\<close>, on the name of the boost, and returns success.
\<close>

theorem setBoost_named_hint:
  assumes "type \<noteq> INTERACTION" and "\<not> mSustainedPerfModeOn w" and "\<not> mBatterySaverOn w"
  shows "setBoost type durationMs w =
    (ok,
     if 0 <s durationMs
     then w\<lparr>hints := (if toString_Boost type \<in> set (hints w) then hints w
                       else hints w @ [toString_Boost type]),
            calls := calls w @ [Call_DoHint_for (toString_Boost type) durationMs]\<rparr>
     else if durationMs = 0
     then w\<lparr>hints := (if toString_Boost type \<in> set (hints w) then hints w
                       else hints w @ [toString_Boost type]),
            calls := calls w @ [Call_DoHint (toString_Boost type)]\<rparr>
     else w\<lparr>hints := removeAll (toString_Boost type) (hints w),
            calls := calls w @ [Call_EndHint (toString_Boost type)]\<rparr>)"
  using assms by (simp add: setBoost_def DoHint_for_def DoHint_def EndHint_def)

theorem setBoost_named_hint_witness:
  "ML_ACC \<noteq> INTERACTION \<and> \<not> mSustainedPerfModeOn world0 \<and> \<not> mBatterySaverOn world0
   \<and> setBoost ML_ACC 200 world0 =
       (ok, world0\<lparr>hints := hints world0 @ [''ML_ACC''],
                   calls := [Call_DoHint_for ''ML_ACC'' 200]\<rparr>)
   \<and> setBoost ML_ACC 0 world0 =
       (ok, world0\<lparr>hints := hints world0 @ [''ML_ACC''], calls := [Call_DoHint ''ML_ACC'']\<rparr>)
   \<and> setBoost ML_ACC (- 1) world0 = (ok, world0\<lparr>calls := [Call_EndHint ''ML_ACC'']\<rparr>)"
  using setBoost_named_hint [of ML_ACC world0 200] setBoost_named_hint [of ML_ACC world0 0]
    setBoost_named_hint [of ML_ACC world0 "- 1"]
  by (simp add: examples_defs names_defs word_sless_alt)

text \<open>
  Claim C5. For every boost and every duration, when one of the two global flags is set,
  \<open>setBoost\<close> returns success and leaves the state as it was: it makes no call on the hint
  manager and none on the interaction handler.
\<close>

theorem setBoost_suppressed:
  assumes "mSustainedPerfModeOn w \<or> mBatterySaverOn w"
  shows "setBoost type durationMs w = (ok, w)"
  using assms by (auto simp: setBoost_def)

theorem setBoost_suppressed_witness:
  "(mSustainedPerfModeOn world_saver \<or> mBatterySaverOn world_saver)
   \<and> setBoost INTERACTION 50 world_saver = (ok, world_saver)
   \<and> setBoost ML_ACC 0 world_saver = (ok, world_saver)"
  using setBoost_suppressed [of world_saver INTERACTION 50]
    setBoost_suppressed [of world_saver ML_ACC 0]
  by (simp add: examples_defs)

text \<open>
  Claim C9. For every duration and every state of the global flags,
  \<open>setBoost(INTERACTION, durationMs)\<close> makes no call on the hint manager: when not
  suppressed, its only call is \<open>Acquire(durationMs)\<close> on the interaction handler, so the
  backend's hints stay as they were, for a negative duration too.
\<close>

theorem setBoost_INTERACTION_no_hint_call:
  "setBoost INTERACTION durationMs w =
     (ok, if mSustainedPerfModeOn w \<or> mBatterySaverOn w then w
          else w\<lparr>calls := calls w @ [Call_Acquire durationMs]\<rparr>)"
  by (simp add: setBoost_def Acquire_def)

theorem setBoost_INTERACTION_no_hint_call_witness:
  "setBoost INTERACTION (- 1) (world0\<lparr>hints := [''INTERACTION'']\<rparr>) =
     (ok, world0\<lparr>hints := [''INTERACTION''], calls := [Call_Acquire (- 1)]\<rparr>)"
  using setBoost_INTERACTION_no_hint_call [of "- 1" "world0\<lparr>hints := [''INTERACTION'']\<rparr>"]
  by (simp add: examples_defs)

subsection \<open>Capabilities\<close>

text \<open>
  Claim C3, as stated, fails where the device hook claims the question:
  \<open>isModeSupported\<close> asks the hook before it looks at the version, so at version 2 the
  mode \<open>GAME\<close>, which lies above the cutoff \<open>CAMERA_STREAMING_HIGH\<close>, is reported
  supported when the hook says so.
\<close>

theorem isModeSupported_claimed_above_cutoff:
  "\<not> modeAdmitted (mServiceVersion (world_v 2)) GAME
   \<and> isModeSupported env_claiming GAME False (world_v 2) = (ok, True, [])"
  by (simp add: modeAdmitted_def modeCutoff_def isModeSupported_def examples_defs Mode_defs
      word_sle_eq)

text \<open>
  Claim C3, amended. For every mode that the device hook does not claim and whose rank
  lies above the cutoff of the negotiated version (\<open>CAMERA_STREAMING_HIGH\<close> at the
  versions 1 and 2, \<open>GAME_LOADING\<close> at 3 and 4, \<open>AUTOMOTIVE_PROJECTION\<close> at 5, every mode
  at a version outside 1 to 5), \<open>isModeSupported\<close> reports false and makes no query on the
  hint manager; \<open>isBoostSupported\<close> reports false, with no query, for every boost above
  \<open>CAMERA_SHOT\<close> at the versions 1 to 5 and for every boost at a version outside 1 to 5.
\<close>

theorem version_gate_rejects:
  "(\<not> fst (isDeviceSpecificModeSupported e type ret0)
      \<and> \<not> modeAdmitted (mServiceVersion w) type
      \<longrightarrow> isModeSupported e type ret0 w = (ok, False, [])) \<and>
   (\<not> boostAdmitted (mServiceVersion w) boost
      \<longrightarrow> isBoostSupported e boost w = (ok, False, []))"
  by (auto simp: isModeSupported_def isBoostSupported_def modeVersionGate_admitted
      boostVersionGate_admitted split: prod.splits bool.splits)

theorem version_gate_rejects_witness:
  "\<not> fst (isDeviceSpecificModeSupported env0 GAME True)
   \<and> \<not> modeAdmitted (mServiceVersion (world_v 2)) GAME
   \<and> isModeSupported env0 GAME True (world_v 2) = (ok, False, [])
   \<and> \<not> boostAdmitted (mServiceVersion (world_v 0)) CAMERA_SHOT
   \<and> isBoostSupported env0 CAMERA_SHOT (world_v 0) = (ok, False, [])
   \<and> \<not> boostAdmitted (mServiceVersion (world_v 5)) (Boost 6)
   \<and> isBoostSupported env0 (Boost 6) (world_v 5) = (ok, False, [])"
  using version_gate_rejects [of env0 GAME True "world_v 2" CAMERA_SHOT]
    version_gate_rejects [of env0 GAME True "world_v 0" CAMERA_SHOT]
    version_gate_rejects [of env0 GAME True "world_v 5" "Boost 6"]
  by (simp add: modeAdmitted_def modeCutoff_def boostAdmitted_def examples_defs Mode_defs
      Boost_defs word_sle_eq)

text \<open>
  Claim C6. For every mode that the device hook does not claim and that the version
  admits: \<open>isModeSupported\<close> reports true for \<open>LOW_POWER\<close>, and for any other mode it
  reports true exactly when the hint manager supports a hint or an ADPF profile of the
  mode's name. For every boost that the version admits, \<open>isBoostSupported\<close> reports true
  exactly when the hint manager supports a hint or an ADPF profile of the boost's name,
  with no exception for any boost.
\<close>

theorem supported_past_gate:
  "(\<not> fst (isDeviceSpecificModeSupported e type ret0) \<and> modeAdmitted (mServiceVersion w) type
      \<longrightarrow>
      fst (isModeSupported e type ret0 w) = ok \<and>
      fst (snd (isModeSupported e type ret0 w)) =
        (type = LOW_POWER \<or> IsHintSupported e (toString_Mode type)
           \<or> IsAdpfProfileSupported e (toString_Mode type))) \<and>
   (boostAdmitted (mServiceVersion w) boost \<longrightarrow>
      fst (isBoostSupported e boost w) = ok \<and>
      fst (snd (isBoostSupported e boost w)) =
        (IsHintSupported e (toString_Boost boost)
           \<or> IsAdpfProfileSupported e (toString_Boost boost)))"
  by (auto simp: isModeSupported_def isBoostSupported_def modeVersionGate_admitted
      boostVersionGate_admitted split: prod.splits bool.splits)

text \<open>
  On the example device \<open>LOW_POWER\<close> is supported though the hint manager knows neither a
  hint nor a profile of that name, \<open>GAME\<close> is supported by its profile at version 3, and
  the boost \<open>DISPLAY_UPDATE_IMMINENT\<close>, of the same rank as \<open>LOW_POWER\<close>, is not supported.
\<close>

theorem supported_past_gate_witness:
  "\<not> fst (isDeviceSpecificModeSupported env0 LOW_POWER False)
   \<and> modeAdmitted (mServiceVersion (world_v 1)) LOW_POWER
   \<and> \<not> IsHintSupported env0 (toString_Mode LOW_POWER)
   \<and> \<not> IsAdpfProfileSupported env0 (toString_Mode LOW_POWER)
   \<and> fst (snd (isModeSupported env0 LOW_POWER False (world_v 1)))
   \<and> \<not> fst (isDeviceSpecificModeSupported env0 GAME False)
   \<and> modeAdmitted (mServiceVersion (world_v 3)) GAME
   \<and> fst (snd (isModeSupported env0 GAME False (world_v 3)))
   \<and> boostAdmitted (mServiceVersion (world_v 3)) DISPLAY_UPDATE_IMMINENT
   \<and> \<not> fst (snd (isBoostSupported env0 DISPLAY_UPDATE_IMMINENT (world_v 3)))"
  using supported_past_gate [of env0 LOW_POWER False "world_v 1" DISPLAY_UPDATE_IMMINENT]
    supported_past_gate [of env0 GAME False "world_v 3" DISPLAY_UPDATE_IMMINENT]
  by (simp add: modeAdmitted_def modeCutoff_def boostAdmitted_def examples_defs names_defs
      word_sle_eq)

subsection \<open>Preferred rate of hint sessions\<close>

text \<open>
  Claim C7. \<open>getHintSessionPreferredRate\<close> returns \<open>EX_UNSUPPORTED_OPERATION\<close> exactly when
  the hint manager reports no positive reporting rate limit, the rate being taken as 0
  when ADPF is not supported; otherwise it returns success with the positive limit.
\<close>

theorem getHintSessionPreferredRate_unsupported_iff:
  "(fst (getHintSessionPreferredRate e) = EX_UNSUPPORTED_OPERATION) =
     (\<not> (IsAdpfSupported e \<and> 0 <s mReportingRateLimitNs e)) \<and>
   (IsAdpfSupported e \<and> 0 <s mReportingRateLimitNs e \<longrightarrow>
      getHintSessionPreferredRate e = (ok, mReportingRateLimitNs e))"
  by (auto simp: getHintSessionPreferredRate_def Let_def word_sle_eq word_sless_alt)

theorem getHintSessionPreferredRate_unsupported_iff_witness:
  "IsAdpfSupported env0 \<and> 0 <s mReportingRateLimitNs env0
   \<and> getHintSessionPreferredRate env0 = (ok, 166666660)
   \<and> \<not> (IsAdpfSupported env_no_adpf \<and> 0 <s mReportingRateLimitNs env_no_adpf)
   \<and> fst (getHintSessionPreferredRate env_no_adpf) = EX_UNSUPPORTED_OPERATION"
  using getHintSessionPreferredRate_unsupported_iff [of env0]
    getHintSessionPreferredRate_unsupported_iff [of env_no_adpf]
  by (simp add: examples_defs word_sless_alt)

end
